theory Spec2Isabelle
  imports Main "HOL-Library.Word" "HOL-Library.AList" "HOL-Library.Char_ord"
    "HOL-Library.List_Lexorder"
begin

section \<open>Values, strings and errors\<close>

text \<open>
  The engine stores values of Go's dynamic type \<^verbatim>\<open>any\<close>. The model keeps the dynamic
  types the code tells apart by a type assertion or a type switch: \<^verbatim>\<open>string\<close>,
  \<^verbatim>\<open>int\<close> (64 bits), \<^verbatim>\<open>bool\<close>, \<^verbatim>\<open>float64\<close> (its IEEE-754 bit pattern),
  \<^verbatim>\<open>time.Duration\<close> (an int64 of nanoseconds), \<^verbatim>\<open>[]any\<close>, \<^verbatim>\<open>[]string\<close>,
  \<^verbatim>\<open>map[string]any\<close>, \<^verbatim>\<open>map[any]any\<close> and the nil interface. A map is an
  association list: its order is one order in which Go may iterate over it, and a
  well-formed map has distinct keys. Maps are values here; Go's maps are references,
  and the model does not follow two owners of one nested map object.
\<close>

type_synonym float64 = "64 word"
type_synonym duration = "64 word"

datatype any =
    VNil
  | VString string
  | VInt "64 word"
  | VBool bool
  | VFloat64 float64
  | VDuration duration
  | VSlice "any list"
  | VStrings "string list"
  | VMap "(string \<times> any) list"
  | VMapAny "(any \<times> any) list"

type_synonym smap = "(string \<times> any) list"

text \<open>
  A Go variable of type \<^verbatim>\<open>map[string]any\<close> is either nil or a map: \<open>None\<close> is nil.
\<close>

type_synonym gomap = "smap option"

text \<open>
  \<^verbatim>\<open>error\<close> values: \<^verbatim>\<open>errors.New\<close>/\<^verbatim>\<open>fmt.Errorf\<close> without \<^verbatim>\<open>%w\<close> give \<open>ErrNew\<close>;
  \<^verbatim>\<open>fmt.Errorf("prefix: %w", err)\<close> gives \<open>Errorf\<close> with the text before the verb and
  the wrapped cause (a nil cause prints as \<^verbatim>\<open>%!w(<nil>)\<close>); \<open>ValidationErrors\<close> is the
  struct of that name in builder.go, with its field-to-message map.
\<close>

datatype error =
    ErrNew string
  | Errorf string "error option"
  | ValidationErrors "(string \<times> string) list"

text \<open>What a call does: it returns, or it panics.\<close>

datatype 'a outcome = Return 'a | Panic string

subsection \<open>strconv, strings and fmt\<close>

definition digitChar :: "nat \<Rightarrow> char" where
  "digitChar d = ''0123456789'' ! d"

function natToDec :: "nat \<Rightarrow> string" where
  "natToDec n = (if n < 10 then [digitChar n] else natToDec (n div 10) @ [digitChar (n mod 10)])"
  by pat_completeness auto
termination
  by (relation "measure (\<lambda>n. n)") auto

text \<open>\<^verbatim>\<open>%d\<close> of an integer: its decimal digits, with a minus sign when negative.\<close>

definition itoa :: "int \<Rightarrow> string" where
  "itoa i = (if i < 0 then CHR ''-'' # natToDec (nat (- i)) else natToDec (nat i))"

text \<open>\<^verbatim>\<open>strings.Join(elems, sep)\<close>.\<close>

fun stringsJoin :: "string list \<Rightarrow> string \<Rightarrow> string" where
  "stringsJoin [] sep = []"
| "stringsJoin [x] sep = x"
| "stringsJoin (x # y # ys) sep = x @ sep @ stringsJoin (y # ys) sep"

text \<open>\<^verbatim>\<open>strings.Split(s, sep)\<close> for a separator of one byte.\<close>

fun stringsSplit :: "string \<Rightarrow> char \<Rightarrow> string list" where
  "stringsSplit [] sep = [[]]"
| "stringsSplit (x # xs) sep =
     (if x = sep then [] # stringsSplit xs sep
      else (case stringsSplit xs sep of
              [] \<Rightarrow> [[x]]
            | w # ws \<Rightarrow> (x # w) # ws))"

text \<open>\<^verbatim>\<open>strings.HasPrefix(s, prefix)\<close> and \<^verbatim>\<open>strings.Contains(s, substr)\<close>.\<close>

definition stringsHasPrefix :: "string \<Rightarrow> string \<Rightarrow> bool" where
  "stringsHasPrefix s pre = (take (length pre) s = pre)"

fun stringsContains :: "string \<Rightarrow> string \<Rightarrow> bool" where
  "stringsContains [] substr = (substr = [])"
| "stringsContains (x # xs) substr =
     (stringsHasPrefix (x # xs) substr \<or> stringsContains xs substr)"

text \<open>
  The functions of Go's standard library and of the validator package that the code
  calls and whose results the model does not compute. Every theorem below holds for
  each choice of them.
  \<^item> \<open>formatFloat\<close>, \<open>formatDuration\<close>: \<^verbatim>\<open>fmt.Sprint\<close> of a float64 and of a Duration;
  \<^item> \<open>formatMapAny\<close>: \<^verbatim>\<open>fmt.Sprint\<close> of a \<^verbatim>\<open>map[any]any\<close>, from its keys and the
    renderings of its keys and values (fmt sorts the keys by an internal order);
  \<^item> \<open>sscanInt\<close>, \<open>sscanFloat\<close>: \<^verbatim>\<open>fmt.Sscanf(s, "%d", &r)\<close> and
    \<^verbatim>\<open>fmt.Sscanf(s, "%f", &r)\<close>; \<open>Some r\<close> when the error is nil;
  \<^item> \<open>parseDuration\<close>: \<^verbatim>\<open>time.ParseDuration\<close>; \<open>Some d\<close> when the error is nil;
  \<^item> \<open>validateField\<close>: the validator's \<^verbatim>\<open>Struct\<close> on a struct of one field \<^verbatim>\<open>Value\<close>,
    from the value of the field's \<^verbatim>\<open>validate\<close> tag and the field's value: the
    (tag, parameter) pairs of the field errors, empty when the error is nil;
  \<^item> \<open>quoteBody\<close>: what \<^verbatim>\<open>strconv.Quote\<close> (the verb \<^verbatim>\<open>%q\<close>) writes between its
    two quotes;
  \<^item> \<open>unquote\<close>: \<^verbatim>\<open>strconv.Unquote\<close>; \<open>Some s\<close> when the error is nil.
\<close>

record stdlib =
  formatFloat :: "float64 \<Rightarrow> string"
  formatDuration :: "duration \<Rightarrow> string"
  formatMapAny :: "(any \<times> string \<times> string) list \<Rightarrow> string"
  sscanInt :: "string \<Rightarrow> 64 word option"
  sscanFloat :: "string \<Rightarrow> float64 option"
  parseDuration :: "string \<Rightarrow> duration option"
  validateField :: "string \<Rightarrow> any \<Rightarrow> (string \<times> string) list"
  quoteBody :: "string \<Rightarrow> string"
  unquote :: "string \<Rightarrow> string option"

text \<open>
  \<^verbatim>\<open>fmt.Sprint(v)\<close> of one value: a string prints as itself, also inside a slice or a
  map; a slice prints as \<^verbatim>\<open>[a b]\<close>, a map as \<^verbatim>\<open>map[k:v k:v]\<close> with its keys sorted.
\<close>

fun Sprint :: "stdlib \<Rightarrow> any \<Rightarrow> string" where
  "Sprint L VNil = ''<nil>''"
| "Sprint L (VString s) = s"
| "Sprint L (VInt i) = itoa (sint i)"
| "Sprint L (VBool b) = (if b then ''true'' else ''false'')"
| "Sprint L (VFloat64 f) = formatFloat L f"
| "Sprint L (VDuration d) = formatDuration L d"
| "Sprint L (VSlice xs) = ''['' @ stringsJoin (map (Sprint L) xs) '' '' @ '']''"
| "Sprint L (VStrings ss) = ''['' @ stringsJoin ss '' '' @ '']''"
| "Sprint L (VMap m) =
     ''map['' @ stringsJoin (map (\<lambda>kv. fst kv @ '':'' @ Sprint L (snd kv)) (sort_key fst m)) '' ''
       @ '']''"
| "Sprint L (VMapAny m) =
     formatMapAny L (map (\<lambda>kv. (fst kv, Sprint L (fst kv), Sprint L (snd kv))) m)"

section \<open>The engine: sources, hooks and the Config\<close>

text \<open>
  A \<^verbatim>\<open>Source\<close> is an interface (source.go). The model keeps what its four methods
  return; \<open>srcLoad\<close> is what \<^verbatim>\<open>Load()\<close> returns when the engine calls it (the error,
  or the map, which may be nil).
\<close>

record Source =
  srcName :: string
  srcPriority :: int
  srcLoad :: "error + gomap"
  srcWatchPaths :: "string list"

text \<open>
  Hooks (part_003). A pre-load hook returns an error or nil. A post-load hook is handed
  the accumulated map, may change it in place, and returns an error or nil: \<open>Inr\<close>
  carries the map as the hook leaves it.
\<close>

record PreLoadHook =
  preName :: string
  prePriority :: int
  OnPreLoad :: "error option"

record PostLoadHook =
  postName :: string
  postPriority :: int
  OnPostLoad :: "smap \<Rightarrow> error + smap"

record HookManager =
  preLoad :: "PreLoadHook list"
  postLoad :: "PostLoadHook list"

text \<open>
  The fields of \<^verbatim>\<open>Config\<close> (builder.go) that the modelled operations read or write.
  Observers are named; the mutex, the context and the binder's registries are left out.
  The model is sequential: no other goroutine runs between two steps.
\<close>

record Config =
  sources :: "Source list"
  cdata :: smap
  validationRules :: "(string \<times> string) list"
  observers :: "string list"
  hooks :: HookManager

definition NewHookManager :: HookManager where
  "NewHookManager = \<lparr>preLoad = [], postLoad = []\<rparr>"

definition New :: Config where
  "New = \<lparr>sources = [], cdata = [], validationRules = [], observers = [],
           hooks = NewHookManager\<rparr>"

text \<open>\<^verbatim>\<open>cloneMap\<close> (source.go): nil stays nil, a map is copied entry by entry.\<close>

definition cloneMap :: "gomap \<Rightarrow> gomap" where
  "cloneMap m = (case m of None \<Rightarrow> None | Some es \<Rightarrow> Some es)"

subsection \<open>Data access\<close>

definition Get :: "Config \<Rightarrow> string \<Rightarrow> any option" where
  "Get c key = map_of (cdata c) key"

text \<open>
  \<^verbatim>\<open>getTyped\<close>: the converter's pair (converted, ok) is an option; \<open>defaultVal\<close> is the
  variadic argument; \<open>zero\<close> is the zero value of the type parameter.
\<close>

definition getTyped :: "Config \<Rightarrow> string \<Rightarrow> 'a list \<Rightarrow> 'a \<Rightarrow> (any \<Rightarrow> 'a option) \<Rightarrow> 'a" where
  "getTyped c key defaultVal zero converter =
     (let fallback = (if length defaultVal > 0 then defaultVal ! 0 else zero) in
      case Get c key of
        Some val \<Rightarrow> (case converter val of Some converted \<Rightarrow> converted | None \<Rightarrow> fallback)
      | None \<Rightarrow> fallback)"

definition stringConverter :: "stdlib \<Rightarrow> any \<Rightarrow> string option" where
  "stringConverter L v = (case v of VString s \<Rightarrow> Some s | _ \<Rightarrow> Some (Sprint L v))"

definition GetString :: "stdlib \<Rightarrow> Config \<Rightarrow> string \<Rightarrow> string list \<Rightarrow> string" where
  "GetString L c key defaultVal = getTyped c key defaultVal [] (stringConverter L)"

definition intConverter :: "stdlib \<Rightarrow> any \<Rightarrow> 64 word option" where
  "intConverter L v = (case v of VInt i \<Rightarrow> Some i | _ \<Rightarrow> sscanInt L (Sprint L v))"

definition GetInt :: "stdlib \<Rightarrow> Config \<Rightarrow> string \<Rightarrow> 64 word list \<Rightarrow> 64 word" where
  "GetInt L c key defaultVal = getTyped c key defaultVal 0 (intConverter L)"

definition boolConverter :: "stdlib \<Rightarrow> any \<Rightarrow> bool option" where
  "boolConverter L v =
     (case v of
        VBool b \<Rightarrow> Some b
      | _ \<Rightarrow> (let s = Sprint L v in Some (s = ''true'' \<or> s = ''1'' \<or> s = ''yes'')))"

definition GetBool :: "stdlib \<Rightarrow> Config \<Rightarrow> string \<Rightarrow> bool list \<Rightarrow> bool" where
  "GetBool L c key defaultVal = getTyped c key defaultVal False (boolConverter L)"

definition durationConverter :: "stdlib \<Rightarrow> any \<Rightarrow> duration option" where
  "durationConverter L v =
     (case v of
        VDuration d \<Rightarrow> Some d
      | _ \<Rightarrow> (let s = Sprint L v in if s \<noteq> [] then parseDuration L s else None))"

definition GetDuration :: "stdlib \<Rightarrow> Config \<Rightarrow> string \<Rightarrow> duration list \<Rightarrow> duration" where
  "GetDuration L c key defaultVal = getTyped c key defaultVal 0 (durationConverter L)"

definition floatConverter :: "stdlib \<Rightarrow> any \<Rightarrow> float64 option" where
  "floatConverter L v = (case v of VFloat64 f \<Rightarrow> Some f | _ \<Rightarrow> sscanFloat L (Sprint L v))"

definition GetFloat :: "stdlib \<Rightarrow> Config \<Rightarrow> string \<Rightarrow> float64 list \<Rightarrow> float64" where
  "GetFloat L c key defaultVal = getTyped c key defaultVal 0 (floatConverter L)"

text \<open>
  A \<^verbatim>\<open>[]string\<close> result is \<open>None\<close> for the nil slice and \<open>Some\<close> of its elements
  otherwise.
\<close>

definition stringSliceConverter :: "stdlib \<Rightarrow> any \<Rightarrow> string list option option" where
  "stringSliceConverter L v =
     (case v of
        VStrings val \<Rightarrow> Some (Some val)
      | VString val \<Rightarrow> Some (Some (stringsSplit val CHR '',''))
      | VSlice val \<Rightarrow> Some (Some (map (Sprint L) val))
      | _ \<Rightarrow> None)"

definition GetStringSlice ::
  "stdlib \<Rightarrow> Config \<Rightarrow> string \<Rightarrow> string list option list \<Rightarrow> string list option" where
  "GetStringSlice L c key defaultVal = getTyped c key defaultVal None (stringSliceConverter L)"

subsection \<open>Merging and change detection (builder.go)\<close>

text \<open>
  \<^verbatim>\<open>dst[k] = v\<close> on a map is \<open>AList.update k v dst\<close>; \<^verbatim>\<open>range\<close> over a nil map
  runs no iteration.
\<close>

definition entries :: "gomap \<Rightarrow> smap" where
  "entries m = (case m of None \<Rightarrow> [] | Some es \<Rightarrow> es)"

text \<open>
  \<^verbatim>\<open>deepMerge(dst, src)\<close>: the loop over \<open>src\<close>; where both sides hold a
  \<^verbatim>\<open>map[string]any\<close> at \<open>k\<close> the nested maps are merged (in place in Go, so that
  \<open>dst[k]\<close> is the merged map afterwards), otherwise \<open>src\<close>'s value replaces \<open>dst\<close>'s.
\<close>

fun deepMerge :: "smap \<Rightarrow> smap \<Rightarrow> smap" where
  "deepMerge dst [] = dst"
| "deepMerge dst ((k, v) # rest) =
     deepMerge
       (case map_of dst k of
          Some (VMap dstMap) \<Rightarrow>
            (case v of
               VMap srcMap \<Rightarrow> AList.update k (VMap (deepMerge dstMap srcMap)) dst
             | _ \<Rightarrow> AList.update k v dst)
        | _ \<Rightarrow> AList.update k v dst)
       rest"

definition deepEqual :: "stdlib \<Rightarrow> any \<Rightarrow> any \<Rightarrow> bool" where
  "deepEqual L a b = (Sprint L a = Sprint L b)"

definition detectChanges :: "stdlib \<Rightarrow> smap \<Rightarrow> smap \<Rightarrow> smap" where
  "detectChanges L old updated =
     fold (\<lambda>(k, newVal) changed.
             (case map_of old k of
                None \<Rightarrow> AList.update k newVal changed
              | Some oldVal \<Rightarrow>
                  if \<not> deepEqual L oldVal newVal then AList.update k newVal changed
                  else changed))
       updated []"

subsection \<open>Source order (builder.go, part_003)\<close>

text \<open>
  \<^verbatim>\<open>sortSources\<close> and \<^verbatim>\<open>sortHooks\<close> are the same insertion sort over a slice.
  \<open>shiftRight\<close> is the inner loop
  \<^verbatim>\<open>for j >= 0 && a[j].Priority() > cur.Priority() { a[j+1] = a[j]; j-- }\<close>;
  the outer loop runs \<open>i\<close> from 1 to \<open>len(a) - 1\<close>. The indices stay inside the slice.
\<close>

function shiftRight :: "('a \<Rightarrow> int) \<Rightarrow> 'a \<Rightarrow> 'a list \<Rightarrow> int \<Rightarrow> 'a list \<times> int" where
  "shiftRight prio cur a j =
     (if 0 \<le> j \<and> prio (a ! nat j) > prio cur
      then shiftRight prio cur (a[nat (j + 1) := a ! nat j]) (j - 1)
      else (a, j))"
  by pat_completeness auto
termination
  by (relation "measure (\<lambda>(prio, cur, a, j). nat (j + 1))") auto

declare shiftRight.simps [simp del]

definition insertionSort :: "('a \<Rightarrow> int) \<Rightarrow> 'a list \<Rightarrow> 'a list" where
  "insertionSort prio a =
     fold (\<lambda>i a. (let cur = a ! i;
                      (a', j) = shiftRight prio cur a (int i - 1)
                  in a'[nat (j + 1) := cur]))
       [1..<length a] a"

definition sortSources :: "Config \<Rightarrow> Config" where
  "sortSources c = c\<lparr>sources := insertionSort srcPriority (sources c)\<rparr>"

definition AddSource :: "Config \<Rightarrow> Source \<Rightarrow> Config" where
  "AddSource c src = sortSources (c\<lparr>sources := sources c @ [src]\<rparr>)"

definition RemoveSource :: "Config \<Rightarrow> string \<Rightarrow> Config" where
  "RemoveSource c name = c\<lparr>sources := filter (\<lambda>src. srcName src \<noteq> name) (sources c)\<rparr>"

text \<open>\<^verbatim>\<open>MemoryWithPriority\<close> (source.go): the source is named \<^verbatim>\<open>memory\<close>.\<close>

definition MemoryWithPriority :: "gomap \<Rightarrow> int \<Rightarrow> Source" where
  "MemoryWithPriority data priority =
     \<lparr>srcName = ''memory'', srcPriority = priority, srcLoad = Inr (cloneMap (cloneMap data)),
      srcWatchPaths = []\<rparr>"

definition DefaultMemoryPriority :: int where
  "DefaultMemoryPriority = 0"

definition Memory :: "gomap \<Rightarrow> Source" where
  "Memory data = MemoryWithPriority data DefaultMemoryPriority"

subsection \<open>Hooks (part_003)\<close>

fun runPreLoad :: "PreLoadHook list \<Rightarrow> error option" where
  "runPreLoad [] = None"
| "runPreLoad (hook # rest) =
     (case OnPreLoad hook of
        Some err \<Rightarrow> Some (Errorf (''pre-load hook '' @ preName hook @ '': '') (Some err))
      | None \<Rightarrow> runPreLoad rest)"

definition ExecutePreLoad :: "HookManager \<Rightarrow> error option" where
  "ExecutePreLoad hm = runPreLoad (preLoad hm)"

fun runPostLoad :: "PostLoadHook list \<Rightarrow> smap \<Rightarrow> error + smap" where
  "runPostLoad [] data = Inr data"
| "runPostLoad (hook # rest) data =
     (case OnPostLoad hook data of
        Inl err \<Rightarrow> Inl (Errorf (''post-load hook '' @ postName hook @ '': '') (Some err))
      | Inr data' \<Rightarrow> runPostLoad rest data')"

definition ExecutePostLoad :: "HookManager \<Rightarrow> smap \<Rightarrow> error + smap" where
  "ExecutePostLoad hm data = runPostLoad (postLoad hm) data"

text \<open>
  The built-in \<^verbatim>\<open>DefaultsHook\<close>: \<^verbatim>\<open>OnPostLoad\<close> stores each default whose key the map
  lacks, and returns nil.
\<close>

definition applyDefaults :: "smap \<Rightarrow> smap \<Rightarrow> smap" where
  "applyDefaults defaults data =
     fold (\<lambda>(key, defaultVal) data.
             (case map_of data key of None \<Rightarrow> AList.update key defaultVal data | Some _ \<Rightarrow> data))
       defaults data"

definition NewDefaultsHook :: "smap \<Rightarrow> PostLoadHook" where
  "NewDefaultsHook defaults =
     \<lparr>postName = ''defaults'', postPriority = 10,
      OnPostLoad = (\<lambda>data. Inr (applyDefaults defaults data))\<rparr>"

subsection \<open>Errors as text\<close>

text \<open>
  \<^verbatim>\<open>err.Error()\<close>. \<^verbatim>\<open>ValidationErrors.Error\<close> ranges over its map; the list gives
  the order.
\<close>

fun errorString :: "error \<Rightarrow> string" where
  "errorString (ErrNew s) = s"
| "errorString (Errorf pre cause) =
     pre @ (case cause of None \<Rightarrow> ''%!w(<nil>)'' | Some e \<Rightarrow> errorString e)"
| "errorString (ValidationErrors errs) =
     ''configuration validation failed: ''
       @ stringsJoin (map (\<lambda>fm. fst fm @ '': '' @ snd fm) errs) ''; ''"

subsection \<open>Struct tags (strconv, reflect)\<close>

definition dquote :: char where
  "dquote = CHR 0x22"

definition backslash :: char where
  "backslash = CHR 0x5C"

text \<open>\<^verbatim>\<open>%q\<close> of a string, \<^verbatim>\<open>strconv.Quote\<close>: the escaped bytes between two quotes.\<close>

definition Quote :: "stdlib \<Rightarrow> string \<Rightarrow> string" where
  "Quote L s = dquote # quoteBody L s @ [dquote]"

text \<open>
  \<^verbatim>\<open>strconv.Unquote\<close>: the quoted empty string gives the empty string; every other
  input is left to the library.
\<close>

definition Unquote :: "stdlib \<Rightarrow> string \<Rightarrow> string option" where
  "Unquote L s = (if s = [dquote, dquote] then Some [] else unquote L s)"

text \<open>
  \<^verbatim>\<open>reflect.StructTag.Lookup\<close>. \<open>scanQuoted\<close> is its inner loop
  \<^verbatim>\<open>for i < len(tag) && tag[i] != '"' { if tag[i] == '\\' { i++ }; i++ }\<close>;
  \<open>nameChar\<close> is the test of the scan to the colon. A syntax error and a failing
  \<^verbatim>\<open>Unquote\<close> leave the loop: the key is reported absent.
\<close>

function scanQuoted :: "string \<Rightarrow> nat \<Rightarrow> nat" where
  "scanQuoted tag i =
     (if i < length tag \<and> tag ! i \<noteq> dquote
      then scanQuoted tag ((if tag ! i = backslash then i + 1 else i) + 1)
      else i)"
  by pat_completeness auto
termination
  by (relation "measure (\<lambda>(tag, i). length tag - i)") auto

declare scanQuoted.simps [simp del]

definition nameChar :: "char \<Rightarrow> bool" where
  "nameChar c = ((of_char c :: nat) > 32 \<and> c \<noteq> CHR '':'' \<and> c \<noteq> dquote \<and> (of_char c :: nat) \<noteq> 127)"

function Lookup :: "stdlib \<Rightarrow> string \<Rightarrow> string \<Rightarrow> string option" where
  "Lookup L tag key =
     (let tag1 = dropWhile (\<lambda>c. c = CHR '' '') tag in
      if tag1 = [] then None
      else
        let i = length (takeWhile nameChar tag1) in
        if i = 0 \<or> i + 1 \<ge> length tag1 \<or> tag1 ! i \<noteq> CHR '':'' \<or> tag1 ! (i + 1) \<noteq> dquote
        then None
        else
          let name = take i tag1;
              tag2 = drop (i + 1) tag1;
              j = scanQuoted tag2 1
          in
          if j \<ge> length tag2 then None
          else if key = name then Unquote L (take (j + 1) tag2)
          else Lookup L (drop (j + 1) tag2) key)"
  by pat_completeness auto
termination
proof (relation "measure (\<lambda>(L, tag, key). length tag)")
  show "wf (measure (\<lambda>(L, tag, key). length tag))"
    by simp
next
  fix L :: stdlib and tag key :: string and tag1 i name tag2 j
  assume t1: "tag1 = dropWhile (\<lambda>c. c = CHR '' '') tag" and ne: "tag1 \<noteq> []"
    and t2: "tag2 = drop (i + 1) tag1"
  have "length tag1 \<le> length tag"
    unfolding t1 by (rule length_dropWhile_le)
  moreover have "length (drop (j + 1) tag2) < length tag1"
    using ne unfolding t2 by (cases tag1) simp_all
  ultimately show "((L, drop (j + 1) tag2, key), (L, tag, key))
      \<in> measure (\<lambda>(L, tag, key). length tag)"
    by simp
qed

declare Lookup.simps [simp del]

text \<open>\<^verbatim>\<open>tag.Get(key)\<close>: the value, or the empty string.\<close>

definition tagGet :: "stdlib \<Rightarrow> string \<Rightarrow> string \<Rightarrow> string" where
  "tagGet L tag key = (case Lookup L tag key of Some v \<Rightarrow> v | None \<Rightarrow> [])"

subsection \<open>Validation rules (builder.go)\<close>

definition AddRule :: "Config \<Rightarrow> string \<Rightarrow> string \<Rightarrow> Config" where
  "AddRule c key rule = c\<lparr>validationRules := AList.update key rule (validationRules c)\<rparr>"

definition Set :: "Config \<Rightarrow> string \<Rightarrow> any \<Rightarrow> Config" where
  "Set c key v = c\<lparr>cdata := AList.update key v (cdata c)\<rparr>"

text \<open>\<^verbatim>\<open>validationMessage\<close>, from a field error's tag and parameter.\<close>

definition validationMessage :: "string \<times> string \<Rightarrow> string" where
  "validationMessage fe =
     (if fst fe = ''required'' then ''is required''
      else if fst fe = ''min'' then ''must be >= '' @ snd fe
      else if fst fe = ''max'' then ''must be <= '' @ snd fe
      else if fst fe = ''email'' then ''must be a valid email''
      else if fst fe = ''url'' then ''must be a valid URL''
      else if fst fe = ''oneof'' then ''must be one of: '' @ snd fe
      else ''validation failed: '' @ fst fe)"

text \<open>
  \<^verbatim>\<open>validateValue\<close>. The struct's one field carries the tag
  \<^verbatim>\<open>fmt.Sprintf(`validate:"%q"`, rule)\<close>; the validator reads the field's
  \<^verbatim>\<open>validate\<close> tag with \<^verbatim>\<open>Get\<close>. For the nil interface \<^verbatim>\<open>reflect.TypeOf\<close> is nil and
  \<^verbatim>\<open>reflect.StructOf\<close> panics.
\<close>

definition structTag :: "stdlib \<Rightarrow> string \<Rightarrow> string" where
  "structTag L rule = ''validate:'' @ [dquote] @ Quote L rule @ [dquote]"

definition validateValue :: "stdlib \<Rightarrow> string \<Rightarrow> any \<Rightarrow> string \<Rightarrow> error option outcome" where
  "validateValue L key v rule =
     (if v = VNil then Panic ''reflect.StructOf: field 0 has no type''
      else
        (case validateField L (tagGet L (structTag L rule) ''validate'') v of
           [] \<Rightarrow> Return None
         | fe # _ \<Rightarrow> Return (Some (ErrNew (validationMessage fe)))))"

definition ValidateKey :: "stdlib \<Rightarrow> Config \<Rightarrow> string \<Rightarrow> error option outcome" where
  "ValidateKey L c key =
     (case map_of (validationRules c) key of
        None \<Rightarrow> Return None
      | Some rule \<Rightarrow>
          (case map_of (cdata c) key of
             None \<Rightarrow>
               if stringsContains rule ''required''
               then Return (Some (ErrNew (''key '' @ Quote L key @ '' is required but not found'')))
               else Return None
           | Some v \<Rightarrow> validateValue L key v rule))"

text \<open>
  \<^verbatim>\<open>ValidateAll\<close>: the loop over the copied rules, with the \<^verbatim>\<open>errors\<close> map as
  accumulator; a panic of \<^verbatim>\<open>validateValue\<close> ends it.
\<close>

fun validateRules ::
  "stdlib \<Rightarrow> (string \<times> string) list \<Rightarrow> smap \<Rightarrow> (string \<times> string) list
     \<Rightarrow> (string \<times> string) list outcome" where
  "validateRules L [] data errors = Return errors"
| "validateRules L ((key, rule) # rest) data errors =
     (case map_of data key of
        None \<Rightarrow>
          validateRules L rest data
            (if stringsContains rule ''required'' then AList.update key ''is required'' errors
             else errors)
      | Some v \<Rightarrow>
          (case validateValue L key v rule of
             Panic p \<Rightarrow> Panic p
           | Return None \<Rightarrow> validateRules L rest data errors
           | Return (Some err) \<Rightarrow>
               validateRules L rest data (AList.update key (errorString err) errors)))"

definition ValidateAll :: "stdlib \<Rightarrow> Config \<Rightarrow> error option outcome" where
  "ValidateAll L c =
     (case validateRules L (validationRules c) (cdata c) [] of
        Panic p \<Rightarrow> Panic p
      | Return errors \<Rightarrow>
          if length errors > 0 then Return (Some (ValidationErrors errors)) else Return None)"

subsection \<open>Load (builder.go)\<close>

text \<open>
  The loop of \<^verbatim>\<open>Load\<close> over the sources, with \<^verbatim>\<open>merged\<close> as accumulator.
\<close>

fun loadSources :: "Source list \<Rightarrow> smap \<Rightarrow> error + smap" where
  "loadSources [] merged = Inr merged"
| "loadSources (src # rest) merged =
     (case srcLoad src of
        Inl err \<Rightarrow> Inl (Errorf (''source '' @ srcName src @ '': '') (Some err))
      | Inr data \<Rightarrow> loadSources rest (deepMerge merged (entries data)))"

text \<open>
  \<^verbatim>\<open>notifyObservers\<close> starts one goroutine per observer, each with its own copy of the
  changed entries; the model lists the calls started.
\<close>

definition notifyObservers :: "Config \<Rightarrow> smap \<Rightarrow> (string \<times> smap) list" where
  "notifyObservers c changed = map (\<lambda>obs. (obs, changed)) (observers c)"

text \<open>
  \<^verbatim>\<open>Load\<close> gives what it returns (or its panic), the Config as it leaves it and the
  observer calls it started. Hooks and sources are handed the Config or hold what they
  like; the model covers those that do not write to the Config's fields, as none of the
  package's own does.
\<close>

definition Load :: "stdlib \<Rightarrow> Config \<Rightarrow> error option outcome \<times> Config \<times> (string \<times> smap) list" where
  "Load L c =
     (case ExecutePreLoad (hooks c) of
        Some err \<Rightarrow> (Return (Some (Errorf ''pre-load hook: '' (Some err))), c, [])
      | None \<Rightarrow>
          (case loadSources (sources c) [] of
             Inl err \<Rightarrow> (Return (Some err), c, [])
           | Inr merged0 \<Rightarrow>
               (case ExecutePostLoad (hooks c) merged0 of
                  Inl err \<Rightarrow> (Return (Some (Errorf ''post-load hook: '' (Some err))), c, [])
                | Inr merged \<Rightarrow>
                    (let changed = detectChanges L (cdata c) merged;
                         c' = c\<lparr>cdata := merged\<rparr>;
                         notified = (if length changed > 0 then notifyObservers c' changed else [])
                     in
                     (if length (validationRules c') > 0
                      then (case ValidateAll L c' of
                              Panic p \<Rightarrow> Panic p
                            | Return (Some err) \<Rightarrow>
                                Return (Some (Errorf ''validation failed: '' (Some err)))
                            | Return None \<Rightarrow> Return None)
                      else Return None,
                      c', notified)))))"

subsection \<open>Profiles (part_003)\<close>

text \<open>
  The \<^verbatim>\<open>ProfileManager\<close> points to its Config; the model keeps the Config in the
  record, and an operation returns the manager with the Config as it leaves it.
\<close>

record ProfileManager =
  config :: Config
  profiles :: "(string \<times> gomap) list"
  active :: string

definition NewProfileManager :: "Config \<Rightarrow> ProfileManager" where
  "NewProfileManager c = \<lparr>config = c, profiles = [], active = []\<rparr>"

definition AddProfile :: "ProfileManager \<Rightarrow> string \<Rightarrow> gomap \<Rightarrow> ProfileManager" where
  "AddProfile pm name data = pm\<lparr>profiles := AList.update name (cloneMap data) (profiles pm)\<rparr>"

definition applyProfile ::
  "stdlib \<Rightarrow> ProfileManager \<Rightarrow> string
     \<Rightarrow> error option outcome \<times> ProfileManager \<times> (string \<times> smap) list" where
  "applyProfile L pm name =
     (case map_of (profiles pm) name of
        None \<Rightarrow>
          (Return (Some (ErrNew (''profile '' @ Quote L name @ '' does not exist''))), pm, [])
      | Some data \<Rightarrow>
          (let source = MemoryWithPriority data 1000;
               newSources =
                 filter (\<lambda>src. \<not> stringsHasPrefix (srcName src) ''profile:'')
                   (sources (config pm)) @ [source];
               c1 = sortSources ((config pm)\<lparr>sources := newSources\<rparr>);
               (err, c2, notified) = Load L c1
           in (err, pm\<lparr>config := c2\<rparr>, notified)))"

definition SetActiveProfile ::
  "stdlib \<Rightarrow> ProfileManager \<Rightarrow> string
     \<Rightarrow> error option outcome \<times> ProfileManager \<times> (string \<times> smap) list" where
  "SetActiveProfile L pm name =
     (case map_of (profiles pm) name of
        None \<Rightarrow>
          (Return (Some (ErrNew (''profile '' @ Quote L name @ '' does not exist''))), pm, [])
      | Some _ \<Rightarrow> applyProfile L (pm\<lparr>active := name\<rparr>) name)"

section \<open>Properties of the typed getters\<close>

lemma getTyped_default:
  "getTyped c key (d # ds) zero conv =
     (case Get c key of None \<Rightarrow> d | Some v \<Rightarrow> (case conv v of None \<Rightarrow> d | Some x \<Rightarrow> x))"
  by (simp add: getTyped_def split: option.splits)

lemma getTyped_absent: "Get c key = None \<Longrightarrow> getTyped c key [] zero conv = zero"
  by (simp add: getTyped_def)

lemma stringConverter_total: "stringConverter L v \<noteq> None"
  by (cases v) (simp_all add: stringConverter_def)

lemma boolConverter_total: "boolConverter L v \<noteq> None"
  by (cases v) (simp_all add: boolConverter_def Let_def)

lemma boolConverter_unrecognised:
  "(\<forall>b. v \<noteq> VBool b) \<Longrightarrow> Sprint L v \<notin> {''true'', ''1'', ''yes''} \<Longrightarrow>
   boolConverter L v = Some False"
  by (cases v) (auto simp add: boolConverter_def Let_def)

text \<open>When the converters of the other four getters report failure.\<close>

lemma intConverter_rejects:
  "(intConverter L v = None) = ((\<forall>i. v \<noteq> VInt i) \<and> sscanInt L (Sprint L v) = None)"
  by (cases v) (simp_all add: intConverter_def)

lemma floatConverter_rejects:
  "(floatConverter L v = None) = ((\<forall>f. v \<noteq> VFloat64 f) \<and> sscanFloat L (Sprint L v) = None)"
  by (cases v) (simp_all add: floatConverter_def)

lemma durationConverter_rejects:
  "(durationConverter L v = None) =
     ((\<forall>d. v \<noteq> VDuration d) \<and> (Sprint L v = [] \<or> parseDuration L (Sprint L v) = None))"
  by (cases v) (auto simp add: durationConverter_def Let_def)

lemma stringSliceConverter_rejects:
  "(stringSliceConverter L v = None) =
     ((\<forall>ss. v \<noteq> VStrings ss) \<and> (\<forall>s. v \<noteq> VString s) \<and> (\<forall>xs. v \<noteq> VSlice xs))"
  by (cases v) (simp_all add: stringSliceConverter_def)

text \<open>
  The getters whose converters report failure return the default on a stored value
  they cannot convert: \<^verbatim>\<open>GetStringSlice\<close> on a stored int, \<^verbatim>\<open>GetDuration\<close> on a
  stored empty string. These two inputs reach no library function.
\<close>

lemma rejecting_getters_return_default:
  "GetStringSlice L (New\<lparr>cdata := [(''debug'', VInt 1)]\<rparr>) ''debug'' [Some [''x'']] = Some [''x'']
   \<and> GetDuration L (New\<lparr>cdata := [(''debug'', VString [])]\<rparr>) ''debug'' [5] = 5"
  by (simp add: GetStringSlice_def GetDuration_def getTyped_def Get_def New_def
      stringSliceConverter_def durationConverter_def)

text \<open>
  C3: a typed getter called with a default returns the default when the stored value
  cannot be coerced to the requested type. \<^verbatim>\<open>GetBool\<close> does not: its converter ends in
  \<^verbatim>\<open>return s == "true" || s == "1" || s == "yes", true\<close>, so it never reports failure,
  and \<^verbatim>\<open>getTyped\<close> never reaches the default for a key that is present. With the
  string \<^verbatim>\<open>"maybe"\<close> stored under \<^verbatim>\<open>debug\<close>, \<^verbatim>\<open>GetBool("debug", true)\<close> returns
  \<^verbatim>\<open>false\<close>, whatever the library functions do.
\<close>

theorem C3_GetBool_unparsable_returns_false:
  "GetBool L (New\<lparr>cdata := [(''debug'', VString ''maybe'')]\<rparr>) ''debug'' [True] = False"
  by (simp add: GetBool_def getTyped_def Get_def boolConverter_def)

text \<open>
  C10: a typed getter called without a default on a key that the merged state does
  not hold returns the zero value of its type: the empty string, 0, false, the zero
  duration, 0.0 (the all-zero bit pattern) and the nil slice. The getters have no
  failing path.
\<close>

theorem C10_absent_key_zero_value:
  assumes "Get c key = None"
  shows "GetString L c key [] = [] \<and> GetInt L c key [] = 0 \<and> GetBool L c key [] = False
       \<and> GetDuration L c key [] = 0 \<and> GetFloat L c key [] = 0
       \<and> GetStringSlice L c key [] = None"
  using assms
  by (simp add: GetString_def GetInt_def GetBool_def GetDuration_def GetFloat_def
      GetStringSlice_def getTyped_absent)

theorem C10_witness:
  "\<forall>L. Get (New\<lparr>cdata := [(''debug'', VBool True)]\<rparr>) ''server.port'' = None
     \<and> GetString L (New\<lparr>cdata := [(''debug'', VBool True)]\<rparr>) ''server.port'' [] = []
     \<and> GetInt L (New\<lparr>cdata := [(''debug'', VBool True)]\<rparr>) ''server.port'' [] = 0
     \<and> GetBool L (New\<lparr>cdata := [(''debug'', VBool True)]\<rparr>) ''server.port'' [] = False
     \<and> GetDuration L (New\<lparr>cdata := [(''debug'', VBool True)]\<rparr>) ''server.port'' [] = 0
     \<and> GetFloat L (New\<lparr>cdata := [(''debug'', VBool True)]\<rparr>) ''server.port'' [] = 0
     \<and> GetStringSlice L (New\<lparr>cdata := [(''debug'', VBool True)]\<rparr>) ''server.port'' [] = None"
proof
  fix L
  have h: "Get (New\<lparr>cdata := [(''debug'', VBool True)]\<rparr>) ''server.port'' = None"
    by (simp add: Get_def)
  show "Get (New\<lparr>cdata := [(''debug'', VBool True)]\<rparr>) ''server.port'' = None
     \<and> GetString L (New\<lparr>cdata := [(''debug'', VBool True)]\<rparr>) ''server.port'' [] = []
     \<and> GetInt L (New\<lparr>cdata := [(''debug'', VBool True)]\<rparr>) ''server.port'' [] = 0
     \<and> GetBool L (New\<lparr>cdata := [(''debug'', VBool True)]\<rparr>) ''server.port'' [] = False
     \<and> GetDuration L (New\<lparr>cdata := [(''debug'', VBool True)]\<rparr>) ''server.port'' [] = 0
     \<and> GetFloat L (New\<lparr>cdata := [(''debug'', VBool True)]\<rparr>) ''server.port'' [] = 0
     \<and> GetStringSlice L (New\<lparr>cdata := [(''debug'', VBool True)]\<rparr>) ''server.port'' [] = None"
    using h C10_absent_key_zero_value [OF h, of L] by simp
qed

end
